theory Spec2Isabelle
  imports Main "HOL-Library.Sublist"
begin

section \<open>The c10 export of caffe2 operators (caffe2/core/c10\_operator.h)\<close>

text \<open>
  The header adapts a caffe2 operator (constructed from a schema, a vector of inputs and
  a vector of output tensors, then run, then asked for its outputs) to the c10
  dispatcher, which passes arguments and results on one stack of type-erased values.
  This theory embeds the three functions of namespace \<open>caffe2::detail\<close> and the
  schema builder, with the stack, the failures and the side effects of the operator
  written out.

  Isabelle names start with a letter: the source's \<open>_call_caffe2_op\<close> and
  \<open>_call_caffe2_op_from_c10\<close> are \<open>u_call_caffe2_op\<close> and
  \<open>u_call_caffe2_op_from_c10\<close> here.
\<close>

subsection \<open>Values, types and schemas\<close>

text \<open>
  An \<open>at::Tensor\<close> is a handle. A default-constructed one (what
  \<open>std::vector::resize\<close> fills a vector with) is the undefined tensor; any other
  is identified by the implementation object it points to.
\<close>

datatype tensor = UndefinedTensor | TensorImpl nat

datatype jit_type =
    TensorType
  | IntType
  | FloatType
  | BoolType
  | StringType
  | NoneType
  | ListType jit_type
  | OptionalType jit_type

text \<open>
  The tags of \<open>c10::IValue\<close> that the header tells apart are None and tensor
  list; a few more stand for every other tag.
\<close>

datatype ivalue =
    IValue_None
  | IValue_Tensor tensor
  | IValue_Int int
  | IValue_Bool bool
  | IValue_String string
  | IValue_IntList "int list"
  | IValue_TensorList "tensor list"

fun isNone :: "ivalue \<Rightarrow> bool" where
  "isNone IValue_None = True"
| "isNone _ = False"

fun isTensorList :: "ivalue \<Rightarrow> bool" where
  "isTensorList (IValue_TensorList _) = True"
| "isTensorList _ = False"

text \<open>
  \<open>toTensorList\<close> followed by \<open>elements\<close>: the tensors of a tensor list.
  On any other tag the accessor does not return a list.
\<close>

fun toTensorList :: "ivalue \<Rightarrow> tensor list option" where
  "toTensorList (IValue_TensorList ts) = Some ts"
| "toTensorList _ = None"

text \<open>
  A \<open>c10::Argument\<close>, by the four constructor arguments the header passes: the
  name, the type, the optional fixed list size \<open>N\<close> and the optional default
  value.
\<close>

record argument =
  arg_name :: string
  arg_type :: jit_type
  arg_N :: "nat option"
  arg_default_value :: "ivalue option"

text \<open>
  A \<open>c10::FunctionSchema\<close>, by its four constructor arguments.
\<close>

record function_schema =
  schema_name :: string
  overload_name :: string
  arguments :: "argument list"
  returns :: "argument list"

definition PREALLOCATED_OUTPUT_ARGNAME :: string where
  "PREALLOCATED_OUTPUT_ARGNAME = ''_caffe2_preallocated_outputs''"

subsection \<open>The schema builder\<close>

text \<open>
  \<open>emplace_back\<close> appends one argument to the moved input vector. Its default
  value is the IValue \<open>IValue()\<close>, that is None, and its list size is
  \<open>nullopt\<close>.
\<close>

definition make_function_schema_for_c10 ::
  "string \<Rightarrow> argument list \<Rightarrow> argument list \<Rightarrow> function_schema" where
  "make_function_schema_for_c10 OperatorName inputs outputs =
     (let actual_inputs = inputs @
            [\<lparr>arg_name = PREALLOCATED_OUTPUT_ARGNAME,
              arg_type = OptionalType (ListType TensorType),
              arg_N = None,
              arg_default_value = Some IValue_None\<rparr>]
      in \<lparr>schema_name = ''_caffe2::'' @ OperatorName,
          overload_name = '''',
          arguments = actual_inputs,
          returns = outputs\<rparr>)"

subsection \<open>The stack\<close>

text \<open>
  Modelled from the spec: \<open>torch::jit::pop\<close> and \<open>torch::jit::push\<close> (the
  stack abstraction is not part of this header). The stack is an ordered sequence whose
  top is its last element; \<open>pop\<close> removes the top value, \<open>pop_n\<close> removes the
  top \<open>n\<close> values and returns them in stack order (the oldest first), \<open>push\<close>
  adds a value on top. Popping more values than the stack holds is outside the
  contract of the stack (the caller's precondition is one value per declared
  argument); the model returns \<open>None\<close> there, and the adapter reports it as the
  outcome \<open>Stack_Underflow\<close>.
\<close>

definition pop :: "ivalue list \<Rightarrow> (ivalue \<times> ivalue list) option" where
  "pop stack = (if stack = [] then None else Some (last stack, butlast stack))"

definition pop_n :: "ivalue list \<Rightarrow> nat \<Rightarrow> (ivalue list \<times> ivalue list) option" where
  "pop_n stack n =
     (if length stack < n then None
      else Some (drop (length stack - n) stack, take (length stack - n) stack))"

definition push :: "ivalue list \<Rightarrow> ivalue \<Rightarrow> ivalue list" where
  "push stack v = stack @ [v]"

text \<open>
  The loop at the end of the adapter: every returned tensor is pushed, first to last.
\<close>

fun push_outputs :: "ivalue list \<Rightarrow> tensor list \<Rightarrow> ivalue list" where
  "push_outputs stack [] = stack"
| "push_outputs stack (output # outputs) =
     push_outputs (push stack (IValue_Tensor output)) outputs"

subsection \<open>The caffe2 operator and its invoker\<close>

text \<open>
  A caffe2 operator class is a template parameter of the header: a constructor from
  (schema, inputs, outputs), \<open>Run\<close> and \<open>move_newstyle_outputs\<close>. An operator
  instance has a state of type \<open>'op\<close>. Constructing and running an operator may
  fail (an exception of type \<open>'e\<close>) and may have effects outside the instance (it
  writes into tensors it was handed): these effects act on a world of type \<open>'w\<close>,
  which every call takes and returns. The value \<open>Run\<close> returns is discarded by
  the header, so only the new instance state is modelled.
\<close>

record ('op, 'w, 'e) Caffe2Operator =
  construct :: "function_schema \<Rightarrow> ivalue list \<Rightarrow> tensor list \<Rightarrow> 'w \<Rightarrow> ('e + 'op) \<times> 'w"
  Run :: "'op \<Rightarrow> 'w \<Rightarrow> ('e + 'op) \<times> 'w"
  move_newstyle_outputs :: "'op \<Rightarrow> tensor list"

type_synonym ('w, 'e) CallCaffe2OpFunc =
  "function_schema \<Rightarrow> ivalue list \<Rightarrow> tensor list \<Rightarrow> 'w \<Rightarrow> ('e + tensor list) \<times> 'w"

definition u_call_caffe2_op ::
  "('op, 'w, 'e) Caffe2Operator \<Rightarrow> ('w, 'e) CallCaffe2OpFunc" where
  "u_call_caffe2_op cls schema inputs outputs w =
     (case construct cls schema inputs outputs w of
        (Inl e, w1) \<Rightarrow> (Inl e, w1)
      | (Inr op, w1) \<Rightarrow>
          (case Run cls op w1 of
             (Inl e, w2) \<Rightarrow> (Inl e, w2)
           | (Inr op', w2) \<Rightarrow> (Inr (move_newstyle_outputs cls op'), w2)))"

subsection \<open>The invocation adapter\<close>

text \<open>
  The outcomes of a call that does not complete: the assertion on the schema (line
  46), the assertion on the popped value (line 63), a stack that holds too few values,
  and a failure of the invoker, which carries the invoker's own exception.
\<close>

datatype 'e failure =
    Schema_Assert
  | TensorList_Assert
  | Stack_Underflow
  | Op_Failure 'e

text \<open>
  The subtype test of the type system (\<open>Type::isSubtypeOf\<close>) is not part of this
  header; the adapter takes it as its first parameter. The adapter returns the outcome
  together with the stack and the world as the call leaves them, also when it fails.
\<close>

definition u_call_caffe2_op_from_c10 ::
  "(jit_type \<Rightarrow> jit_type \<Rightarrow> bool) \<Rightarrow> ivalue list \<Rightarrow> function_schema \<Rightarrow>
   ('w, 'e) CallCaffe2OpFunc \<Rightarrow> 'w \<Rightarrow> ('e failure + unit) \<times> ivalue list \<times> 'w" where
  "u_call_caffe2_op_from_c10 isSubtypeOf stack schema call_op w =
     (if length (arguments schema) \<noteq> 0 \<and>
         isSubtypeOf (arg_type (last (arguments schema))) (OptionalType (ListType TensorType))
      then
        (case pop stack of
           None \<Rightarrow> (Inl Stack_Underflow, stack, w)
         | Some (preallocated_outputs, stack1) \<Rightarrow>
             (let num_outputs = length (returns schema);
                  num_inputs = length (arguments schema) - 1
              in case (if isNone preallocated_outputs
                       then Inr (replicate num_outputs UndefinedTensor)
                       else if isTensorList preallocated_outputs
                       then (case toTensorList preallocated_outputs of
                               Some ts \<Rightarrow> Inr ts
                             | None \<Rightarrow> Inl TensorList_Assert)
                       else Inl TensorList_Assert) of
                   Inl f \<Rightarrow> (Inl f, stack1, w)
                 | Inr outputs \<Rightarrow>
                     (case pop_n stack1 num_inputs of
                        None \<Rightarrow> (Inl Stack_Underflow, stack1, w)
                      | Some (inputs, stack2) \<Rightarrow>
                          (case call_op schema inputs outputs w of
                             (Inl e, w') \<Rightarrow> (Inl (Op_Failure e), stack2, w')
                           | (Inr outputs', w') \<Rightarrow>
                               (Inr (), push_outputs stack2 outputs', w')))))
      else (Inl Schema_Assert, stack, w))"

subsection \<open>The registered entry point\<close>

text \<open>
  \<open>OpHandle\<close> is a function without arguments that returns the operator handle,
  whose schema the entry point reads. The kernel cache is a pointer the entry point
  receives; its type is left open.
\<close>

record operator_handle =
  op_schema :: function_schema

definition call_caffe2_op_from_c10 ::
  "(jit_type \<Rightarrow> jit_type \<Rightarrow> bool) \<Rightarrow> (unit \<Rightarrow> operator_handle) \<Rightarrow>
   ('op, 'w, 'e) Caffe2Operator \<Rightarrow> ivalue list \<Rightarrow> 'c \<Rightarrow> 'w \<Rightarrow>
   ('e failure + unit) \<times> ivalue list \<times> 'w" where
  "call_caffe2_op_from_c10 isSubtypeOf OpHandle cls stack cache w =
     u_call_caffe2_op_from_c10 isSubtypeOf stack (op_schema (OpHandle ()))
       (u_call_caffe2_op cls) w"

subsection \<open>Example operators and schemas\<close>

text \<open>
  Two operator classes for the examples. Both keep the constructor's arguments as the
  instance state and hand back the output set of the constructor as the result; the
  world counts the calls of the constructor and of \<open>Run\<close>. The first runs, the
  second fails in \<open>Run\<close>.
\<close>

definition Passthrough_Op :: "(ivalue list \<times> tensor list, nat, string) Caffe2Operator" where
  "Passthrough_Op =
     \<lparr>construct = (\<lambda>schema inputs outputs w. (Inr (inputs, outputs), Suc w)),
      Run = (\<lambda>op w. (Inr op, Suc w)),
      move_newstyle_outputs = snd\<rparr>"

definition Failing_Op :: "(ivalue list \<times> tensor list, nat, string) Caffe2Operator" where
  "Failing_Op =
     \<lparr>construct = (\<lambda>schema inputs outputs w. (Inr (inputs, outputs), Suc w)),
      Run = (\<lambda>op w. (Inl ''Run failed'', Suc w)),
      move_newstyle_outputs = snd\<rparr>"

text \<open>
  An operator class whose constructor fails and reports, as its exception, the inputs
  and the output set it was constructed from.
\<close>

definition Reporting_Op :: "(unit, nat, ivalue list \<times> tensor list) Caffe2Operator" where
  "Reporting_Op =
     \<lparr>construct = (\<lambda>schema inputs outputs w. (Inl (inputs, outputs), Suc w)),
      Run = (\<lambda>op w. (Inr op, Suc w)),
      move_newstyle_outputs = (\<lambda>op. [])\<rparr>"

text \<open>
  An invoker that ignores the output set and returns three tensors, whatever the schema
  declares.
\<close>

definition three_tensors :: "(nat, string) CallCaffe2OpFunc" where
  "three_tensors schema inputs outputs w =
     (Inr [TensorImpl 7, TensorImpl 8, TensorImpl 9], Suc w)"

text \<open>
  The smallest subtype test for the examples: a type is a subtype of itself only.
\<close>

definition same_type :: "jit_type \<Rightarrow> jit_type \<Rightarrow> bool" where
  "same_type t u = (t = u)"

text \<open>
  Arguments as the registration example of the header declares them, by name and type,
  and the schema of the scenario of the specification: inputs \<open>A: tensor\<close> and
  \<open>B: int\<close>, output \<open>C: tensor\<close>.
\<close>

definition Argument :: "string \<Rightarrow> jit_type \<Rightarrow> argument" where
  "Argument n t = \<lparr>arg_name = n, arg_type = t, arg_N = None, arg_default_value = None\<rparr>"

definition AB_C_schema :: function_schema where
  "AB_C_schema =
     make_function_schema_for_c10 ''AB_C''
       [Argument ''A'' TensorType, Argument ''B'' IntType] [Argument ''C'' TensorType]"

text \<open>
  A schema that was not made by the schema builder: its only parameter is an integer.
\<close>

definition unbuilt_schema :: function_schema where
  "unbuilt_schema =
     \<lparr>schema_name = ''_caffe2::Unbuilt'', overload_name = [],
      arguments = [Argument ''B'' IntType], returns = [Argument ''C'' TensorType]\<rparr>"

text \<open>
  The same schema without any parameter.
\<close>

definition no_parameter_schema :: function_schema where
  "no_parameter_schema =
     \<lparr>schema_name = ''_caffe2::Unbuilt'', overload_name = [],
      arguments = [], returns = [Argument ''C'' TensorType]\<rparr>"

text \<open>
  A subtype test in which a type is a subtype of itself and of its optional type, and a
  schema whose only parameter is a list of tensors that is not optional.
\<close>

definition optional_subtype :: "jit_type \<Rightarrow> jit_type \<Rightarrow> bool" where
  "optional_subtype t u = (t = u \<or> u = OptionalType t)"

definition list_parameter_schema :: function_schema where
  "list_parameter_schema =
     \<lparr>schema_name = ''_caffe2::Unbuilt'', overload_name = [],
      arguments = [Argument ''outs'' (ListType TensorType)],
      returns = [Argument ''C'' TensorType]\<rparr>"

section \<open>Basic facts\<close>

lemma push_outputs_append:
  "push_outputs stack outputs = stack @ map IValue_Tensor outputs"
  by (induction outputs arbitrary: stack) (simp_all add: push_def)

lemma pop_snoc: "pop (xs @ [p]) = Some (p, xs)"
  by (simp add: pop_def)

lemma pop_n_append: "length ins = n \<Longrightarrow> pop_n (rest @ ins) n = Some (ins, rest)"
  by (simp add: pop_n_def)

text \<open>
  A call on a stack that holds the declared arguments, with a schema that passes the
  first assertion and a top value that passes the second: the adapter calls the invoker
  once, on the values below the top and on the output set resolved from the top value,
  and either propagates its failure or pushes what it returns.
\<close>

lemma adapter_valid_call:
  assumes "arguments schema \<noteq> []"
    and "isSubtypeOf (arg_type (last (arguments schema))) (OptionalType (ListType TensorType))"
    and "length ins = length (arguments schema) - 1"
    and "isNone p \<or> isTensorList p"
  shows "u_call_caffe2_op_from_c10 isSubtypeOf (rest @ ins @ [p]) schema call_op w =
     (case call_op schema ins
             (case toTensorList p of Some ts \<Rightarrow> ts
              | None \<Rightarrow> replicate (length (returns schema)) UndefinedTensor) w of
        (Inl e, w') \<Rightarrow> (Inl (Op_Failure e), rest, w')
      | (Inr results, w') \<Rightarrow> (Inr (), rest @ map IValue_Tensor results, w'))"
proof -
  have p1: "\<And>q. pop (rest @ ins @ [q]) = Some (q, rest @ ins)"
    by (simp add: pop_def butlast_append)
  have p2: "pop_n (rest @ ins) (length (arguments schema) - Suc 0) = Some (ins, rest)"
    using assms(3) by (simp add: pop_n_append)
  show ?thesis
    using assms(1,2,4)
    by (cases p) (simp_all add: u_call_caffe2_op_from_c10_def p1 p2 push_outputs_append
        split: prod.splits sum.splits)
qed

lemma AB_C_arguments:
  "arguments AB_C_schema =
     [Argument ''A'' TensorType, Argument ''B'' IntType,
      \<lparr>arg_name = ''_caffe2_preallocated_outputs'',
       arg_type = OptionalType (ListType TensorType),
       arg_N = None, arg_default_value = Some IValue_None\<rparr>]"
  by (simp add: AB_C_schema_def make_function_schema_for_c10_def
      PREALLOCATED_OUTPUT_ARGNAME_def)

lemma AB_C_returns: "returns AB_C_schema = [Argument ''C'' TensorType]"
  by (simp add: AB_C_schema_def make_function_schema_for_c10_def)

lemma AB_C_passes:
  "arguments AB_C_schema \<noteq> []"
  "same_type (arg_type (last (arguments AB_C_schema))) (OptionalType (ListType TensorType))"
  by (simp_all add: AB_C_arguments same_type_def)

text \<open>
  The two pops together remove as many values as the schema declares parameters.
\<close>

lemma take_butlast_args:
  assumes "n \<noteq> 0"
  shows "take (length (butlast xs) - (n - Suc 0)) (butlast xs) = take (length xs - n) xs"
proof (cases "xs = []")
  case True
  then show ?thesis by simp
next
  case False
  then have "length xs - Suc 0 - (n - Suc 0) = length xs - n" using assms by simp
  moreover have "length xs - n < length xs" using False assms by simp
  ultimately show ?thesis by (simp add: take_butlast)
qed

section \<open>The schema builder\<close>

text \<open>
  Claim C2. For every operator name and every pair of input and output descriptor lists,
  the empty ones included, the schema builder returns a schema whose parameter list is
  the input list followed by exactly one more parameter, named by the reserved constant
  \<open>_caffe2_preallocated_outputs\<close>, of type optional list of tensors, with no
  fixed list size and with the absent value (None) as its default; whose result list is
  the given output list; and whose name is \<open>_caffe2::\<close> followed by the given
  name.
\<close>

theorem schema_builder_result:
  "arguments (make_function_schema_for_c10 OperatorName inputs outputs) =
     inputs @ [\<lparr>arg_name = PREALLOCATED_OUTPUT_ARGNAME,
                arg_type = OptionalType (ListType TensorType),
                arg_N = None, arg_default_value = Some IValue_None\<rparr>]
   \<and> PREALLOCATED_OUTPUT_ARGNAME = ''_caffe2_preallocated_outputs''
   \<and> length (arguments (make_function_schema_for_c10 OperatorName inputs outputs)) =
       length inputs + 1
   \<and> returns (make_function_schema_for_c10 OperatorName inputs outputs) = outputs
   \<and> schema_name (make_function_schema_for_c10 OperatorName inputs outputs) =
       ''_caffe2::'' @ OperatorName"
  by (simp add: make_function_schema_for_c10_def PREALLOCATED_OUTPUT_ARGNAME_def)

section \<open>The assertions of the adapter\<close>

text \<open>
  Claim C3, as stated, fails: line 48 is a subtype test, not a comparison of types. Under
  a subtype test in which a list of tensors is a subtype of the optional list of tensors,
  a schema whose last parameter has the type list of tensors, which is not the type
  optional list of tensors, passes the assertion: the adapter pops the stack, runs the
  operator and pushes its result.
\<close>

theorem adapter_schema_assert_counterexample:
  "arguments list_parameter_schema \<noteq> []
   \<and> arg_type (last (arguments list_parameter_schema)) \<noteq> OptionalType (ListType TensorType)
   \<and> u_call_caffe2_op_from_c10 optional_subtype [IValue_None] list_parameter_schema
        (u_call_caffe2_op Passthrough_Op) 0 =
      (Inr (), [IValue_Tensor UndefinedTensor], 2)
   \<and> u_call_caffe2_op_from_c10 optional_subtype [IValue_None] list_parameter_schema
        (u_call_caffe2_op Passthrough_Op) 0 \<noteq>
      (Inl Schema_Assert, [IValue_None], 0)"
  by (simp add: list_parameter_schema_def Argument_def optional_subtype_def
      u_call_caffe2_op_from_c10_def pop_def pop_n_def push_def u_call_caffe2_op_def
      Passthrough_Op_def)

text \<open>
  Claim C3, amended. For every schema that declares no parameter, or whose last
  parameter's type is not a subtype of the optional list of tensors (the subtype test of
  line 48 fails), the adapter fails with the assertion on the schema, on every stack,
  with every invoker, and leaves the stack as it was; the invoker has not been called
  (the world is as it was).
\<close>

theorem adapter_schema_assert:
  assumes "arguments schema = [] \<or>
     \<not> isSubtypeOf (arg_type (last (arguments schema))) (OptionalType (ListType TensorType))"
  shows "u_call_caffe2_op_from_c10 isSubtypeOf stack schema call_op w =
     (Inl Schema_Assert, stack, w)"
  using assms by (auto simp add: u_call_caffe2_op_from_c10_def)

theorem adapter_schema_assert_witness:
  "arguments no_parameter_schema = []
   \<and> u_call_caffe2_op_from_c10 same_type [IValue_Int 5]
        no_parameter_schema (u_call_caffe2_op Passthrough_Op) 0 =
      (Inl Schema_Assert, [IValue_Int 5], 0)
   \<and> arg_type (last (arguments unbuilt_schema)) = IntType
   \<and> u_call_caffe2_op_from_c10 same_type [IValue_Int 5] unbuilt_schema
        (u_call_caffe2_op Passthrough_Op) 0 =
      (Inl Schema_Assert, [IValue_Int 5], 0)"
proof -
  have a: "arguments no_parameter_schema = []" by (simp add: no_parameter_schema_def)
  have b: "arg_type (last (arguments unbuilt_schema)) = IntType"
    by (simp add: unbuilt_schema_def Argument_def)
  have c: "\<not> same_type (arg_type (last (arguments unbuilt_schema)))
      (OptionalType (ListType TensorType))"
    by (simp add: b same_type_def)
  show ?thesis
    using a b
      adapter_schema_assert [of no_parameter_schema same_type
        "[IValue_Int 5]" "u_call_caffe2_op Passthrough_Op" 0]
      adapter_schema_assert [of unbuilt_schema same_type
        "[IValue_Int 5]" "u_call_caffe2_op Passthrough_Op" 0]
      c
    by simp
qed

text \<open>
  Conversely, a call fails with the assertion on the schema only when the schema declares
  no parameter or the subtype test fails.
\<close>

lemma schema_assert_iff:
  "fst (u_call_caffe2_op_from_c10 isSubtypeOf stack schema call_op w) = Inl Schema_Assert
   \<longleftrightarrow> arguments schema = [] \<or>
       \<not> isSubtypeOf (arg_type (last (arguments schema))) (OptionalType (ListType TensorType))"
  by (auto simp add: u_call_caffe2_op_from_c10_def Let_def
      split: option.splits prod.splits sum.splits if_splits)

text \<open>
  Where the subtype test accepts no type but the optional list of tensors itself, the
  assertion fails for every last parameter of another type.
\<close>

lemma schema_assert_exact_type:
  assumes "\<And>t. isSubtypeOf t (OptionalType (ListType TensorType)) \<Longrightarrow>
             t = OptionalType (ListType TensorType)"
    and "arguments schema = [] \<or>
         arg_type (last (arguments schema)) \<noteq> OptionalType (ListType TensorType)"
  shows "u_call_caffe2_op_from_c10 isSubtypeOf stack schema call_op w =
     (Inl Schema_Assert, stack, w)"
  using assms by (auto simp add: u_call_caffe2_op_from_c10_def)

text \<open>
  Claim C5. For every call whose schema passes the first assertion and whose popped top
  value is neither None nor a tensor list, the call fails with the assertion on that
  value: the stack is left with the top value popped and nothing pushed, and the
  invoker has not been called, whatever it is (the world is as it was).
\<close>

theorem adapter_tensor_list_assert:
  assumes "arguments schema \<noteq> []"
    and "isSubtypeOf (arg_type (last (arguments schema))) (OptionalType (ListType TensorType))"
    and "\<not> isNone p" and "\<not> isTensorList p"
  shows "u_call_caffe2_op_from_c10 isSubtypeOf (rest @ [p]) schema call_op w =
     (Inl TensorList_Assert, rest, w)"
  using assms by (simp add: u_call_caffe2_op_from_c10_def pop_snoc)

theorem adapter_tensor_list_assert_witness:
  "u_call_caffe2_op_from_c10 same_type
     [IValue_Tensor (TensorImpl 1), IValue_Int 5, IValue_Int 3] AB_C_schema
     (u_call_caffe2_op Passthrough_Op) 0 =
   (Inl TensorList_Assert, [IValue_Tensor (TensorImpl 1), IValue_Int 5], 0)"
  using adapter_tensor_list_assert [where isSubtypeOf = same_type and schema = AB_C_schema
      and p = "IValue_Int 3" and rest = "[IValue_Tensor (TensorImpl 1), IValue_Int 5]"
      and call_op = "u_call_caffe2_op Passthrough_Op" and w = 0] AB_C_passes
  by simp

section \<open>The output buffer set and the inputs of the operator\<close>

text \<open>
  Claim C4. In a call that reaches the invoker, the output set the invoker receives is
  resolved from the popped top value: for None it is a new list of as many undefined
  tensors as the schema declares results; for a tensor list it is the elements of that
  list, of whatever length (no hypothesis relates the length of \<open>ts\<close> to the
  number of results).
\<close>

theorem adapter_output_buffer_set:
  assumes "arguments schema \<noteq> []"
    and "isSubtypeOf (arg_type (last (arguments schema))) (OptionalType (ListType TensorType))"
    and "length ins = length (arguments schema) - 1"
  shows "u_call_caffe2_op_from_c10 isSubtypeOf (rest @ ins @ [IValue_None]) schema call_op w =
           (case call_op schema ins (replicate (length (returns schema)) UndefinedTensor) w of
              (Inl e, w') \<Rightarrow> (Inl (Op_Failure e), rest, w')
            | (Inr results, w') \<Rightarrow> (Inr (), rest @ map IValue_Tensor results, w'))
         \<and> u_call_caffe2_op_from_c10 isSubtypeOf (rest @ ins @ [IValue_TensorList ts]) schema
             call_op w =
           (case call_op schema ins ts w of
              (Inl e, w') \<Rightarrow> (Inl (Op_Failure e), rest, w')
            | (Inr results, w') \<Rightarrow> (Inr (), rest @ map IValue_Tensor results, w'))"
  using adapter_valid_call [where isSubtypeOf = isSubtypeOf and schema = schema
      and ins = ins and p = IValue_None and rest = rest and call_op = call_op and w = w]
    adapter_valid_call [where isSubtypeOf = isSubtypeOf and schema = schema
      and ins = ins and p = "IValue_TensorList ts" and rest = rest and call_op = call_op
      and w = w]
    assms
  by simp

theorem adapter_output_buffer_set_witness:
  "u_call_caffe2_op_from_c10 same_type
     [IValue_Tensor (TensorImpl 1), IValue_Int 5, IValue_None]
     AB_C_schema (u_call_caffe2_op Passthrough_Op) 0 =
   (Inr (), [IValue_Tensor UndefinedTensor], 2)
   \<and> u_call_caffe2_op_from_c10 same_type
     [IValue_Tensor (TensorImpl 1), IValue_Int 5, IValue_TensorList [TensorImpl 3, TensorImpl 4]]
     AB_C_schema (u_call_caffe2_op Passthrough_Op) 0 =
   (Inr (), [IValue_Tensor (TensorImpl 3), IValue_Tensor (TensorImpl 4)], 2)"
  using adapter_output_buffer_set [where schema = AB_C_schema and isSubtypeOf = same_type
      and ins = "[IValue_Tensor (TensorImpl 1), IValue_Int 5]" and rest = "[]"
      and call_op = "u_call_caffe2_op Passthrough_Op" and w = 0
      and ts = "[TensorImpl 3, TensorImpl 4]"]
    AB_C_passes
  by (simp add: AB_C_arguments AB_C_returns u_call_caffe2_op_def Passthrough_Op_def)

text \<open>
  Claim C6. In a valid call whose top value is a tensor list with as many tensors as
  the schema declares results, the constructor of the operator receives exactly these
  tensors, in order, as its output set; the call then continues with \<open>Run\<close>
  and the extraction of the outputs of the instance.
\<close>

theorem preallocated_outputs_reach_constructor:
  assumes "arguments schema \<noteq> []"
    and "isSubtypeOf (arg_type (last (arguments schema))) (OptionalType (ListType TensorType))"
    and "length ins = length (arguments schema) - 1"
    and "length ts = length (returns schema)"
  shows "u_call_caffe2_op_from_c10 isSubtypeOf (rest @ ins @ [IValue_TensorList ts]) schema
           (u_call_caffe2_op cls) w =
         (case construct cls schema ins ts w of
            (Inl e, w1) \<Rightarrow> (Inl (Op_Failure e), rest, w1)
          | (Inr op, w1) \<Rightarrow>
              (case Run cls op w1 of
                 (Inl e, w2) \<Rightarrow> (Inl (Op_Failure e), rest, w2)
               | (Inr op', w2) \<Rightarrow>
                   (Inr (), rest @ map IValue_Tensor (move_newstyle_outputs cls op'), w2)))"
proof -
  have "isNone (IValue_TensorList ts) \<or> isTensorList (IValue_TensorList ts)" by simp
  with assms(1-3)
  have step: "u_call_caffe2_op_from_c10 isSubtypeOf (rest @ ins @ [IValue_TensorList ts]) schema
      (u_call_caffe2_op cls) w =
     (case u_call_caffe2_op cls schema ins
             (case toTensorList (IValue_TensorList ts) of Some ts \<Rightarrow> ts
              | None \<Rightarrow> replicate (length (returns schema)) UndefinedTensor) w of
        (Inl e, w') \<Rightarrow> (Inl (Op_Failure e), rest, w')
      | (Inr results, w') \<Rightarrow> (Inr (), rest @ map IValue_Tensor results, w'))"
    by (rule adapter_valid_call)
  show ?thesis
    unfolding step
    by (simp add: u_call_caffe2_op_def split: prod.splits sum.splits)
qed

theorem preallocated_outputs_reach_constructor_witness:
  "u_call_caffe2_op_from_c10 same_type
     [IValue_Tensor (TensorImpl 1), IValue_Int 5, IValue_TensorList [TensorImpl 42]]
     AB_C_schema (u_call_caffe2_op Reporting_Op) 0 =
   (Inl (Op_Failure ([IValue_Tensor (TensorImpl 1), IValue_Int 5], [TensorImpl 42])), [], 1)"
  using preallocated_outputs_reach_constructor [where schema = AB_C_schema
      and isSubtypeOf = same_type and ins = "[IValue_Tensor (TensorImpl 1), IValue_Int 5]"
      and rest = "[]" and cls = Reporting_Op and w = 0 and ts = "[TensorImpl 42]"]
    AB_C_passes
  by (simp add: AB_C_arguments AB_C_returns Reporting_Op_def)

text \<open>
  Claim C8. In every schema made by the schema builder the last parameter is the
  synthetic one and the parameters before it are the given inputs. In every call that
  reaches the operator, the inputs the constructor receives are exactly the values
  below the top of the stack, one per parameter but the last, in stack order; the top
  value, which belongs to the synthetic parameter, only decides the output set.
\<close>

theorem synthetic_parameter_last_and_hidden:
  assumes "arguments schema \<noteq> []"
    and "isSubtypeOf (arg_type (last (arguments schema))) (OptionalType (ListType TensorType))"
    and "length ins = length (arguments schema) - 1"
    and "isNone p \<or> isTensorList p"
  shows "(\<exists>a. arguments (make_function_schema_for_c10 OperatorName inputs outputs) =
                inputs @ [a]
              \<and> arg_name a = PREALLOCATED_OUTPUT_ARGNAME
              \<and> arg_type a = OptionalType (ListType TensorType))
         \<and> u_call_caffe2_op_from_c10 isSubtypeOf (rest @ ins @ [p]) schema
             (u_call_caffe2_op cls) w =
           (case construct cls schema ins
                   (case toTensorList p of Some ts \<Rightarrow> ts
                    | None \<Rightarrow> replicate (length (returns schema)) UndefinedTensor) w of
              (Inl e, w1) \<Rightarrow> (Inl (Op_Failure e), rest, w1)
            | (Inr op, w1) \<Rightarrow>
                (case Run cls op w1 of
                   (Inl e, w2) \<Rightarrow> (Inl (Op_Failure e), rest, w2)
                 | (Inr op', w2) \<Rightarrow>
                     (Inr (), rest @ map IValue_Tensor (move_newstyle_outputs cls op'), w2)))"
proof -
  have step: "u_call_caffe2_op_from_c10 isSubtypeOf (rest @ ins @ [p]) schema
      (u_call_caffe2_op cls) w =
     (case u_call_caffe2_op cls schema ins
             (case toTensorList p of Some ts \<Rightarrow> ts
              | None \<Rightarrow> replicate (length (returns schema)) UndefinedTensor) w of
        (Inl e, w') \<Rightarrow> (Inl (Op_Failure e), rest, w')
      | (Inr results, w') \<Rightarrow> (Inr (), rest @ map IValue_Tensor results, w'))"
    using assms by (rule adapter_valid_call)
  show ?thesis
    unfolding step
    by (simp add: u_call_caffe2_op_def make_function_schema_for_c10_def
        split: prod.splits sum.splits)
qed

theorem synthetic_parameter_last_and_hidden_witness:
  "arguments AB_C_schema =
     [Argument ''A'' TensorType, Argument ''B'' IntType,
      \<lparr>arg_name = PREALLOCATED_OUTPUT_ARGNAME, arg_type = OptionalType (ListType TensorType),
       arg_N = None, arg_default_value = Some IValue_None\<rparr>]
   \<and> u_call_caffe2_op_from_c10 same_type
     [IValue_Tensor (TensorImpl 1), IValue_Int 5, IValue_None]
     AB_C_schema (u_call_caffe2_op Reporting_Op) 0 =
   (Inl (Op_Failure ([IValue_Tensor (TensorImpl 1), IValue_Int 5], [UndefinedTensor])), [], 1)"
  using synthetic_parameter_last_and_hidden [where schema = AB_C_schema
      and isSubtypeOf = same_type and ins = "[IValue_Tensor (TensorImpl 1), IValue_Int 5]"
      and rest = "[]" and cls = Reporting_Op and w = 0 and p = IValue_None]
    AB_C_passes
  by (simp add: AB_C_arguments AB_C_returns Reporting_Op_def PREALLOCATED_OUTPUT_ARGNAME_def)

section \<open>The effect of a call on the stack\<close>

text \<open>
  Claim C1, as stated, fails: the adapter pushes what the invoker returns and never
  compares its length with the number of declared results. Here the schema declares
  two inputs and one result, the caller passes two preallocated tensors, the operator
  hands both back, and the stack shrinks by one value where the claim says two.
\<close>

theorem adapter_stack_effect_counterexample:
  "length (arguments AB_C_schema) = 2 + 1 \<and> length (returns AB_C_schema) = 1
   \<and> same_type (arg_type (last (arguments AB_C_schema))) (OptionalType (ListType TensorType))
   \<and> isTensorList (IValue_TensorList [TensorImpl 1, TensorImpl 2])
   \<and> u_call_caffe2_op_from_c10 same_type
        [IValue_Tensor (TensorImpl 0), IValue_Int 5,
         IValue_TensorList [TensorImpl 1, TensorImpl 2]]
        AB_C_schema (u_call_caffe2_op Passthrough_Op) 0 =
      (Inr (), [IValue_Tensor (TensorImpl 1), IValue_Tensor (TensorImpl 2)], 2)
   \<and> int (length [IValue_Tensor (TensorImpl 1), IValue_Tensor (TensorImpl 2)]) -
       int (length [IValue_Tensor (TensorImpl 0), IValue_Int 5,
         IValue_TensorList [TensorImpl 1, TensorImpl 2]]) \<noteq> 1 - 2 - (1::int)"
  by (simp add: AB_C_arguments AB_C_returns same_type_def u_call_caffe2_op_from_c10_def
      pop_def pop_n_def push_def u_call_caffe2_op_def Passthrough_Op_def)

text \<open>
  Claim C1, amended. For every call that passes both assertions, on a stack that holds
  the \<open>k + 1\<close> argument values of a schema with \<open>k + 1\<close> parameters
  and \<open>m\<close> results, and whose invoker returns exactly \<open>m\<close> tensors:
  the adapter completes, the top \<open>k + 1\<close> values are gone, the \<open>m\<close>
  results are on top in result order, and the height of the stack has changed by
  \<open>m - k - 1\<close>.
\<close>

theorem adapter_stack_effect:
  assumes "length (arguments schema) = Suc k" and "length (returns schema) = m"
    and "isSubtypeOf (arg_type (last (arguments schema))) (OptionalType (ListType TensorType))"
    and "length ins = k"
    and "isNone p \<or> isTensorList p"
    and "call_op schema ins
           (case toTensorList p of Some ts \<Rightarrow> ts | None \<Rightarrow> replicate m UndefinedTensor) w =
         (Inr results, w')"
    and "length results = m"
  shows "u_call_caffe2_op_from_c10 isSubtypeOf (rest @ ins @ [p]) schema call_op w =
           (Inr (), rest @ map IValue_Tensor results, w')
         \<and> length (rest @ map IValue_Tensor results) = length rest + m
         \<and> int (length (rest @ map IValue_Tensor results)) - int (length (rest @ ins @ [p])) =
             int m - int k - 1"
proof -
  have ne: "arguments schema \<noteq> []" using assms(1) by auto
  have li: "length ins = length (arguments schema) - 1" using assms(1,4) by simp
  have call: "call_op schema ins
      (case toTensorList p of Some ts \<Rightarrow> ts
       | None \<Rightarrow> replicate (length (returns schema)) UndefinedTensor) w = (Inr results, w')"
    using assms(6) unfolding assms(2) .
  have "u_call_caffe2_op_from_c10 isSubtypeOf (rest @ ins @ [p]) schema call_op w =
     (case call_op schema ins
             (case toTensorList p of Some ts \<Rightarrow> ts
              | None \<Rightarrow> replicate (length (returns schema)) UndefinedTensor) w of
        (Inl e, w') \<Rightarrow> (Inl (Op_Failure e), rest, w')
      | (Inr results, w') \<Rightarrow> (Inr (), rest @ map IValue_Tensor results, w'))"
    using ne assms(3) li assms(5) by (rule adapter_valid_call)
  also have "\<dots> = (Inr (), rest @ map IValue_Tensor results, w')"
    by (simp add: call)
  finally show ?thesis using assms(4,7) by simp
qed

theorem adapter_stack_effect_witness:
  "u_call_caffe2_op_from_c10 same_type
     [IValue_Bool True, IValue_Tensor (TensorImpl 1), IValue_Int 5, IValue_None]
     AB_C_schema (u_call_caffe2_op Passthrough_Op) 0 =
   (Inr (), [IValue_Bool True, IValue_Tensor UndefinedTensor], 2)"
  using adapter_stack_effect [where schema = AB_C_schema and k = 2 and m = 1
      and isSubtypeOf = same_type and ins = "[IValue_Tensor (TensorImpl 1), IValue_Int 5]"
      and p = IValue_None and call_op = "u_call_caffe2_op Passthrough_Op" and w = 0
      and results = "[UndefinedTensor]" and w' = 2 and rest = "[IValue_Bool True]"]
    AB_C_passes
  by (simp add: AB_C_arguments AB_C_returns u_call_caffe2_op_def Passthrough_Op_def)

text \<open>
  Claim C10. For every call that passes both assertions and whose invoker returns, the
  adapter pushes every tensor the invoker returned, whatever their number: no
  hypothesis relates the length of \<open>results\<close> to the number of declared
  results.
\<close>

theorem adapter_pushes_all_returned:
  assumes "arguments schema \<noteq> []"
    and "isSubtypeOf (arg_type (last (arguments schema))) (OptionalType (ListType TensorType))"
    and "length ins = length (arguments schema) - 1"
    and "isNone p \<or> isTensorList p"
    and "call_op schema ins
           (case toTensorList p of Some ts \<Rightarrow> ts
            | None \<Rightarrow> replicate (length (returns schema)) UndefinedTensor) w =
         (Inr results, w')"
  shows "u_call_caffe2_op_from_c10 isSubtypeOf (rest @ ins @ [p]) schema call_op w =
           (Inr (), rest @ map IValue_Tensor results, w')
         \<and> length (rest @ map IValue_Tensor results) = length rest + length results"
proof -
  have "u_call_caffe2_op_from_c10 isSubtypeOf (rest @ ins @ [p]) schema call_op w =
     (case call_op schema ins
             (case toTensorList p of Some ts \<Rightarrow> ts
              | None \<Rightarrow> replicate (length (returns schema)) UndefinedTensor) w of
        (Inl e, w') \<Rightarrow> (Inl (Op_Failure e), rest, w')
      | (Inr results, w') \<Rightarrow> (Inr (), rest @ map IValue_Tensor results, w'))"
    using assms(1-4) by (rule adapter_valid_call)
  also have "\<dots> = (Inr (), rest @ map IValue_Tensor results, w')"
    by (simp add: assms(5))
  finally show ?thesis by simp
qed

theorem adapter_pushes_all_returned_witness:
  "length (returns AB_C_schema) = 1
   \<and> u_call_caffe2_op_from_c10 same_type
     [IValue_Tensor (TensorImpl 1), IValue_Int 5, IValue_None]
     AB_C_schema three_tensors 0 =
   (Inr (), [IValue_Tensor (TensorImpl 7), IValue_Tensor (TensorImpl 8),
             IValue_Tensor (TensorImpl 9)], 1)"
  using adapter_pushes_all_returned [where schema = AB_C_schema
      and isSubtypeOf = same_type and ins = "[IValue_Tensor (TensorImpl 1), IValue_Int 5]"
      and rest = "[]" and call_op = three_tensors and w = 0 and p = IValue_None
      and results = "[TensorImpl 7, TensorImpl 8, TensorImpl 9]" and w' = 1]
    AB_C_passes
  by (simp add: AB_C_arguments AB_C_returns three_tensors_def)

text \<open>
  Claim C7. Every call ends in one of three ways. It completes: the invoker was called
  once and returned, and the stack is the original one without its top values, one per
  parameter, followed by all returned tensors. Or the invoker failed: the call fails
  with the invoker's own exception, the world is the one the single invocation left,
  and the stack is an initial segment of the original one, so nothing was pushed. Or
  the call failed before the invoker was called: the world is unchanged and the stack
  is an initial segment of the original one.
\<close>

theorem adapter_atomic:
  assumes "u_call_caffe2_op_from_c10 isSubtypeOf stack schema call_op w = (res, stack', w')"
  shows "(res = Inr () \<and>
          (\<exists>inputs outputs results.
             call_op schema inputs outputs w = (Inr results, w') \<and>
             stack' = take (length stack - length (arguments schema)) stack @
                      map IValue_Tensor results))
       \<or> (\<exists>e. res = Inl (Op_Failure e) \<and> prefix stack' stack \<and>
             (\<exists>inputs outputs. call_op schema inputs outputs w = (Inl e, w')))
       \<or> ((res = Inl Schema_Assert \<or> res = Inl TensorList_Assert \<or> res = Inl Stack_Underflow) \<and>
           prefix stack' stack \<and> w' = w)"
proof (cases "length (arguments schema) \<noteq> 0 \<and>
    isSubtypeOf (arg_type (last (arguments schema))) (OptionalType (ListType TensorType))")
  case False
  then show ?thesis using assms by (auto simp add: u_call_caffe2_op_from_c10_def)
next
  case pass: True
  show ?thesis
  proof (cases "pop stack")
    case None
    then show ?thesis using assms pass by (auto simp add: u_call_caffe2_op_from_c10_def)
  next
    case (Some a)
    then obtain p where pop: "pop stack = Some (p, butlast stack)" and ne: "stack \<noteq> []"
      by (auto simp add: pop_def split: if_splits)
    have pre1: "prefix (butlast stack) stack" by (rule prefixeq_butlast)
    show ?thesis
    proof (cases "isNone p \<or> isTensorList p")
      case False
      then show ?thesis using assms pass pop pre1
        by (auto simp add: u_call_caffe2_op_from_c10_def)
    next
      case ok: True
      define outs where "outs = (case toTensorList p of Some ts \<Rightarrow> ts
              | None \<Rightarrow> replicate (length (returns schema)) UndefinedTensor)"
      have unfold: "u_call_caffe2_op_from_c10 isSubtypeOf stack schema call_op w =
          (case pop_n (butlast stack) (length (arguments schema) - 1) of
             None \<Rightarrow> (Inl Stack_Underflow, butlast stack, w)
           | Some (inputs, stack2) \<Rightarrow>
               (case call_op schema inputs outs w of
                  (Inl e, w') \<Rightarrow> (Inl (Op_Failure e), stack2, w')
                | (Inr outputs', w') \<Rightarrow> (Inr (), stack2 @ map IValue_Tensor outputs', w')))"
        using pass ok
        by (cases p) (simp_all add: u_call_caffe2_op_from_c10_def pop outs_def
            push_outputs_append split: option.splits prod.splits sum.splits)
      show ?thesis
      proof (cases "length (butlast stack) < length (arguments schema) - 1")
        case True
        then have "u_call_caffe2_op_from_c10 isSubtypeOf stack schema call_op w =
            (Inl Stack_Underflow, butlast stack, w)"
          unfolding unfold by (simp add: pop_n_def)
        then show ?thesis using assms pre1 by simp
      next
        case False
        define inputs where
          "inputs = drop (length (butlast stack) - (length (arguments schema) - 1)) (butlast stack)"
        define stack2 where "stack2 = take (length stack - length (arguments schema)) stack"
        have "take (length (butlast stack) - (length (arguments schema) - 1)) (butlast stack) =
            stack2"
          using pass take_butlast_args [of "length (arguments schema)" stack]
          by (simp add: stack2_def)
        with False
        have pn: "pop_n (butlast stack) (length (arguments schema) - 1) = Some (inputs, stack2)"
          by (simp add: pop_n_def inputs_def)
        then have pn': "pop_n (butlast stack) (length (arguments schema) - Suc 0) =
            Some (inputs, stack2)"
          by simp
        have pre2: "prefix stack2 stack"
          unfolding stack2_def by (rule take_is_prefix)
        obtain r w2 where call: "call_op schema inputs outs w = (r, w2)"
          by (cases "call_op schema inputs outs w")
        show ?thesis
        proof (cases r)
          case (Inl e)
          then have "u_call_caffe2_op_from_c10 isSubtypeOf stack schema call_op w =
              (Inl (Op_Failure e), stack2, w2)"
            unfolding unfold by (simp add: pn' call)
          with assms have "res = Inl (Op_Failure e)" "stack' = stack2" "w' = w2" by simp_all
          then show ?thesis using pre2 call Inl by blast
        next
          case (Inr results)
          then have "u_call_caffe2_op_from_c10 isSubtypeOf stack schema call_op w =
              (Inr (), stack2 @ map IValue_Tensor results, w2)"
            unfolding unfold by (simp add: pn' call)
          with assms have "res = Inr ()" "stack' = stack2 @ map IValue_Tensor results" "w' = w2"
            by simp_all
          then show ?thesis using call Inr unfolding stack2_def by blast
        qed
      qed
    qed
  qed
qed

theorem adapter_atomic_witness:
  "u_call_caffe2_op_from_c10 same_type
     [IValue_Tensor (TensorImpl 1), IValue_Int 5, IValue_None]
     AB_C_schema (u_call_caffe2_op Failing_Op) 0 = (Inl (Op_Failure ''Run failed''), [], 2)
   \<and> prefix [] [IValue_Tensor (TensorImpl 1), IValue_Int 5, IValue_None]
   \<and> (\<exists>inputs outputs.
         u_call_caffe2_op Failing_Op AB_C_schema inputs outputs 0 = (Inl ''Run failed'', 2))"
proof -
  have run: "u_call_caffe2_op_from_c10 same_type
     [IValue_Tensor (TensorImpl 1), IValue_Int 5, IValue_None]
     AB_C_schema (u_call_caffe2_op Failing_Op) 0 = (Inl (Op_Failure ''Run failed''), [], 2)"
    by (simp add: AB_C_arguments AB_C_returns same_type_def u_call_caffe2_op_from_c10_def
      pop_def pop_n_def u_call_caffe2_op_def Failing_Op_def)
  show ?thesis
    using adapter_atomic [OF run] run by simp
qed

section \<open>The registered entry point\<close>

text \<open>
  Claim C9. For every operator class and operator handle, the entry point behaves as
  the shared adapter called with the schema of the handle and the invoker of the
  operator class; the cache has no effect on the outcome, on the stack or on the
  world.
\<close>

theorem entry_point_delegates:
  "call_caffe2_op_from_c10 isSubtypeOf OpHandle cls stack cache w =
     u_call_caffe2_op_from_c10 isSubtypeOf stack (op_schema (OpHandle ()))
       (u_call_caffe2_op cls) w
   \<and> call_caffe2_op_from_c10 isSubtypeOf OpHandle cls stack cache w =
     call_caffe2_op_from_c10 isSubtypeOf OpHandle cls stack cache' w"
  by (simp add: call_caffe2_op_from_c10_def)

end
